theory Spec2Isabelle
  imports Main "HOL-Library.Sublist" "HOL-Library.Multiset"
begin

section \<open>Strings of the program\<close>

text \<open>
  A JavaScript string is modelled as a \<^typ>\<open>string\<close>: one \<^typ>\<open>char\<close> per code unit,
  for texts whose code units are below 256.  The character classes are those of the
  regular expressions of \<^verbatim>\<open>src/index.ts\<close> on that range.
\<close>

definition isSpace :: "char \<Rightarrow> bool" where
  \<comment> \<open>\<^verbatim>\<open>\s\<close>: tab, line feed, vertical tab, form feed, carriage return, space, no-break space\<close>
  "isSpace c = (c \<in> set [CHR 0x09, CHR 0x0A, CHR 0x0B, CHR 0x0C, CHR 0x0D, CHR 0x20, CHR 0xA0])"

definition isDigit :: "char \<Rightarrow> bool" where
  \<comment> \<open>\<^verbatim>\<open>\d\<close>\<close>
  "isDigit c = (c \<in> set ''0123456789'')"

definition isLineTerminator :: "char \<Rightarrow> bool" where
  \<comment> \<open>the characters that \<^verbatim>\<open>.\<close> does not match\<close>
  "isLineTerminator c = (c \<in> set [CHR 0x0A, CHR 0x0D])"

definition trim :: "string \<Rightarrow> string" where
  \<comment> \<open>\<^verbatim>\<open>String.prototype.trim\<close>\<close>
  "trim s = rev (dropWhile isSpace (rev (dropWhile isSpace s)))"

definition endsWith :: "string \<Rightarrow> string \<Rightarrow> bool" where
  "endsWith s w = suffix w s"

fun split :: "char \<Rightarrow> string \<Rightarrow> string list" where
  \<comment> \<open>\<^verbatim>\<open>s.split(sep)\<close> for a separator of one character; the empty string gives one empty piece\<close>
  "split sep [] = [[]]"
| "split sep (c # cs) =
     (if c = sep then [] # split sep cs
      else (case split sep cs of [] \<Rightarrow> [[c]] | w # ws \<Rightarrow> (c # w) # ws))"

fun join :: "string \<Rightarrow> string list \<Rightarrow> string" where
  \<comment> \<open>\<^verbatim>\<open>xs.join(sep)\<close>\<close>
  "join sep [] = []"
| "join sep [x] = x"
| "join sep (x # y # ys) = x @ sep @ join sep (y # ys)"

section \<open>Regular expressions\<close>

text \<open>
  The fragment of regular expressions that the program uses, with the backtracking
  semantics of the language: \<open>matches r (s, c)\<close> lists, in the order in which a backtracking
  matcher tries them, the ways in which \<open>r\<close> matches a prefix of \<open>s\<close>; each is the rest of
  the input with the text of the capture group.  Quantifiers are greedy.
\<close>

datatype cclass = Space | Digit | Dot

fun inClass :: "cclass \<Rightarrow> char \<Rightarrow> bool" where
  "inClass Space c = isSpace c"
| "inClass Digit c = isDigit c"
| "inClass Dot c = (\<not> isLineTerminator c)"

datatype regex =
    RLit string
  | RClass cclass
  | RSeq regex regex
  | RStar regex
  | RGroup regex

abbreviation RPlus :: "regex \<Rightarrow> regex" where
  "RPlus r \<equiv> RSeq r (RStar r)"

type_synonym mstate = "string \<times> string option"

function matches :: "regex \<Rightarrow> mstate \<Rightarrow> mstate list" where
  "matches (RLit w) (s, c) = (if prefix w s then [(drop (length w) s, c)] else [])"
| "matches (RClass k) (s, c) =
     (case s of [] \<Rightarrow> [] | x # xs \<Rightarrow> if inClass k x then [(xs, c)] else [])"
| "matches (RSeq a b) (s, c) = concat (map (matches b) (matches a (s, c)))"
| "matches (RStar r) (s, c) =
     concat (map (\<lambda>st. if length (fst st) < length s then matches (RStar r) st else [])
                 (matches r (s, c)))
     @ [(s, c)]"
| "matches (RGroup r) (s, c) =
     map (\<lambda>st. (fst st, Some (take (length s - length (fst st)) s))) (matches r (s, c))"
  by pat_completeness auto
termination
  by (relation "measures [\<lambda>(r, st). size r, \<lambda>(r, st). length (fst st)]") auto

fun search :: "regex \<Rightarrow> string \<Rightarrow> mstate option" where
  \<comment> \<open>\<^verbatim>\<open>s.match(r)\<close> without the \<^verbatim>\<open>g\<close> flag: the first way of matching at the leftmost position\<close>
  "search r [] = (case matches r ([], None) of [] \<Rightarrow> None | m # _ \<Rightarrow> Some m)"
| "search r (x # xs) =
     (case matches r (x # xs, None) of [] \<Rightarrow> search r xs | m # _ \<Rightarrow> Some m)"

function matchAll :: "regex \<Rightarrow> string \<Rightarrow> string option list" where
  \<comment> \<open>\<^verbatim>\<open>s.matchAll(r)\<close> with the \<^verbatim>\<open>g\<close> flag, as the list of the captures: after a match the
      search goes on where the match ended, one character further after an empty match\<close>
  "matchAll r s =
     (case matches r (s, None) of
        [] \<Rightarrow> (case s of [] \<Rightarrow> [] | _ # s' \<Rightarrow> matchAll r s')
      | m # _ \<Rightarrow>
          snd m # (if length (fst m) < length s then matchAll r (fst m)
                   else (case s of [] \<Rightarrow> [] | _ # s' \<Rightarrow> matchAll r s')))"
  by pat_completeness auto
termination
  by (relation "measure (\<lambda>(r, s). length s)") auto

definition group1 :: "mstate option \<Rightarrow> string" where
  \<comment> \<open>\<^verbatim>\<open>m?.slice(1)[0] || ""\<close>\<close>
  "group1 m = (case m of Some (_, Some g) \<Rightarrow> g | _ \<Rightarrow> [])"

section \<open>Numbers\<close>

definition digitVal :: "char \<Rightarrow> int" where
  "digitVal c = int (of_char c) - 48"

definition decimal :: "string \<Rightarrow> int" where
  "decimal s = foldl (\<lambda>a c. 10 * a + digitVal c) 0 s"

definition toNumber :: "string option \<Rightarrow> int option" where
  \<comment> \<open>unary \<^verbatim>\<open>+\<close> on what the capture \<^verbatim>\<open>(\d+)\<close> holds; \<open>None\<close> is \<^verbatim>\<open>NaN\<close>.  A capture that
      is absent, or a text that is not a run of digits, stands for \<^verbatim>\<open>NaN\<close>; numbers are exact.\<close>
  "toNumber m =
     (case m of
        None \<Rightarrow> None
      | Some s \<Rightarrow> if s \<noteq> [] \<and> list_all isDigit s then Some (decimal s) else None)"

definition digitChar :: "nat \<Rightarrow> char" where
  "digitChar d = char_of (48 + d)"

function digits :: "nat \<Rightarrow> string" where
  "digits n = (if n < 10 then [digitChar n] else digits (n div 10) @ [digitChar (n mod 10)])"
  by pat_completeness auto
termination
  by (relation "measure id") auto

definition numberToString :: "int \<Rightarrow> string" where
  \<comment> \<open>the text of an integer inside a template literal\<close>
  "numberToString i = (if i < 0 then CHR ''-'' # digits (nat (- i)) else digits (nat i))"

section \<open>The file system\<close>

text \<open>
  A file system maps a path to what is there: a regular file with its content, a
  directory, or a symbolic link with its target.  A path is a key as it is written (no
  normalisation), and a link's target is an absolute path.  The program runs as root:
  there are no permissions, and a write does not ask for the directory above the path.
  Every call of a primitive of \<^verbatim>\<open>fs\<close> is recorded in the trace, in the order of the
  calls, whether it fails or not.  An exception is a value \<open>Inl (Error msg)\<close>; for the
  file system the message is the error code.
\<close>

datatype node = File string | Dir | Link string

type_synonym fs = "string \<rightharpoonup> node"

datatype error = Error string

datatype fsop =
    ExistsSync string
  | ReadFileSync string
  | WriteFileSync string string
  | MkdirSync string
  | SymlinkSync string string
  | RmSync string
  | ReaddirSync string

record world =
  files :: fs
  trace :: "fsop list"

definition logOp :: "fsop \<Rightarrow> world \<Rightarrow> world" where
  "logOp x w = w\<lparr>trace := trace w @ [x]\<rparr>"

fun follow :: "nat \<Rightarrow> fs \<Rightarrow> string \<Rightarrow> (string \<times> node option) option" where
  \<comment> \<open>follows the symbolic links at a path: the path reached and what is there;
      \<open>None\<close> when the links do not end within the given number of steps\<close>
  "follow 0 f p = None"
| "follow (Suc n) f p =
     (case f p of Some (Link t) \<Rightarrow> follow n f t | x \<Rightarrow> Some (p, x))"

definition maxLinks :: nat where
  "maxLinks = 40"

definition existsSync :: "string \<Rightarrow> world \<Rightarrow> bool \<times> world" where
  "existsSync p w =
     ((case follow maxLinks (files w) p of Some (_, Some _) \<Rightarrow> True | _ \<Rightarrow> False),
      logOp (ExistsSync p) w)"

definition readFileSync :: "string \<Rightarrow> world \<Rightarrow> (error + string) \<times> world" where
  "readFileSync p w =
     ((case follow maxLinks (files w) p of
         None \<Rightarrow> Inl (Error ''ELOOP'')
       | Some (_, None) \<Rightarrow> Inl (Error ''ENOENT'')
       | Some (_, Some (File d)) \<Rightarrow> Inr d
       | Some (_, Some _) \<Rightarrow> Inl (Error ''EISDIR'')),
      logOp (ReadFileSync p) w)"

definition writeFileSync :: "string \<Rightarrow> string \<Rightarrow> world \<Rightarrow> (error + unit) \<times> world" where
  "writeFileSync p d w =
     (case follow maxLinks (files w) p of
        None \<Rightarrow> (Inl (Error ''ELOOP''), logOp (WriteFileSync p d) w)
      | Some (q, Some Dir) \<Rightarrow> (Inl (Error ''EISDIR''), logOp (WriteFileSync p d) w)
      | Some (q, _) \<Rightarrow> (Inr (), logOp (WriteFileSync p d) (w\<lparr>files := (files w)(q \<mapsto> File d)\<rparr>)))"

fun parentsFrom :: "string \<Rightarrow> string \<Rightarrow> string list" where
  \<comment> \<open>the proper prefixes of a path that end before a \<^verbatim>\<open>/\<close>; the first argument is the part
      of the path already read\<close>
  "parentsFrom pre [] = []"
| "parentsFrom pre (c # cs) =
     (if c = CHR ''/'' \<and> pre \<noteq> [] then pre # parentsFrom (pre @ [c]) cs
      else parentsFrom (pre @ [c]) cs)"

fun mkdirs :: "string list \<Rightarrow> fs \<Rightarrow> error + fs" where
  \<comment> \<open>makes the directories of the list, the last of which is the one asked for\<close>
  "mkdirs [] f = Inr f"
| "mkdirs (p # ps) f =
     (case follow maxLinks f p of
        None \<Rightarrow> Inl (Error ''ELOOP'')
      | Some (q, None) \<Rightarrow> mkdirs ps (f(q \<mapsto> Dir))
      | Some (q, Some Dir) \<Rightarrow> mkdirs ps f
      | Some (q, Some _) \<Rightarrow> Inl (Error (if ps = [] then ''EEXIST'' else ''ENOTDIR'')))"

definition mkdirSync :: "string \<Rightarrow> world \<Rightarrow> (error + unit) \<times> world" where
  \<comment> \<open>\<^verbatim>\<open>mkdirSync(p, { recursive: true })\<close>: the directory and the missing ones above it\<close>
  "mkdirSync p w =
     (case mkdirs (parentsFrom [] p @ [p]) (files w) of
        Inl e \<Rightarrow> (Inl e, logOp (MkdirSync p) w)
      | Inr f \<Rightarrow> (Inr (), logOp (MkdirSync p) (w\<lparr>files := f\<rparr>)))"

definition symlinkSync :: "string \<Rightarrow> string \<Rightarrow> world \<Rightarrow> (error + unit) \<times> world" where
  \<comment> \<open>\<^verbatim>\<open>symlinkSync(target, path)\<close>: fails when anything is at the path, a link included\<close>
  "symlinkSync target p w =
     (case files w p of
        Some _ \<Rightarrow> (Inl (Error ''EEXIST''), logOp (SymlinkSync target p) w)
      | None \<Rightarrow> (Inr (), logOp (SymlinkSync target p) (w\<lparr>files := (files w)(p \<mapsto> Link target)\<rparr>)))"

definition rmSync :: "string \<Rightarrow> world \<Rightarrow> (error + unit) \<times> world" where
  \<comment> \<open>\<^verbatim>\<open>rmSync(path)\<close> without options: removes the entry itself, never a directory\<close>
  "rmSync p w =
     (case files w p of
        None \<Rightarrow> (Inl (Error ''ENOENT''), logOp (RmSync p) w)
      | Some Dir \<Rightarrow> (Inl (Error ''EISDIR''), logOp (RmSync p) w)
      | Some _ \<Rightarrow> (Inr (), logOp (RmSync p) (w\<lparr>files := (files w)(p := None)\<rparr>)))"

section \<open>The configuration and the site records\<close>

record Config =
  nginxPath :: string
  sitesAvailable :: string
  sitesEnabled :: string
  defaultVhosts :: string

record NginxServer =
  name :: string
  hosts :: "string list"
  port :: "int list"
  root :: string
  enabled :: bool

definition availablePath :: "Config \<Rightarrow> string \<Rightarrow> string" where
  "availablePath cfg n = sitesAvailable cfg @ ''/'' @ n"

definition enabledPath :: "Config \<Rightarrow> string \<Rightarrow> string" where
  "enabledPath cfg n = sitesEnabled cfg @ ''/'' @ n"

definition serverNameRe :: regex where
  \<comment> \<open>\<^verbatim>\<open>/server_name\s+(.+);/\<close>\<close>
  "serverNameRe =
     RSeq (RLit ''server_name'')
       (RSeq (RPlus (RClass Space)) (RSeq (RGroup (RPlus (RClass Dot))) (RLit '';'')))"

definition listenRe :: regex where
  \<comment> \<open>\<^verbatim>\<open>/\s*listen\s+(\d+)/g\<close>\<close>
  "listenRe =
     RSeq (RStar (RClass Space))
       (RSeq (RLit ''listen'') (RSeq (RPlus (RClass Space)) (RGroup (RPlus (RClass Digit)))))"

definition rootRe :: regex where
  \<comment> \<open>\<^verbatim>\<open>/root\s+(.+);/\<close>\<close>
  "rootRe =
     RSeq (RLit ''root'')
       (RSeq (RPlus (RClass Space)) (RSeq (RGroup (RPlus (RClass Dot))) (RLit '';'')))"

definition parseHosts :: "string \<Rightarrow> string list" where
  "parseHosts content = split CHR '' '' (group1 (search serverNameRe content))"

definition parsePorts :: "string \<Rightarrow> int list" where
  "parsePorts content = List.map_filter toNumber (matchAll listenRe content)"

definition parseRoot :: "string \<Rightarrow> string" where
  "parseRoot content = group1 (search rootRe content)"

definition reload :: "Config \<Rightarrow> NginxServer \<Rightarrow> world \<Rightarrow> (error + NginxServer) \<times> world" where
  "reload cfg srv w =
     (case readFileSync (availablePath cfg (name srv)) w of
        (Inl e, w1) \<Rightarrow> (Inl e, w1)
      | (Inr content, w1) \<Rightarrow>
          (case existsSync (enabledPath cfg (name srv)) w1 of
             (en, w2) \<Rightarrow>
               (Inr (srv\<lparr>hosts := parseHosts content, port := parsePorts content,
                         root := parseRoot content, enabled := en\<rparr>), w2)))"

definition createNginxServer :: "Config \<Rightarrow> string \<Rightarrow> world \<Rightarrow> (error + NginxServer) \<times> world" where
  \<comment> \<open>the constructor: the name, then \<open>reload\<close>\<close>
  "createNginxServer cfg n w =
     reload cfg \<lparr>name = n, hosts = [], port = [], root = [], enabled = False\<rparr> w"

definition enable :: "Config \<Rightarrow> NginxServer \<Rightarrow> world \<Rightarrow> (error + NginxServer) \<times> world" where
  "enable cfg srv w =
     (if enabled srv then (Inr srv, w)
      else (case symlinkSync (availablePath cfg (name srv)) (enabledPath cfg (name srv)) w of
              (Inl e, w1) \<Rightarrow> (Inl e, w1)
            | (Inr _, w1) \<Rightarrow> (Inr (srv\<lparr>enabled := True\<rparr>), w1)))"

definition disable :: "Config \<Rightarrow> NginxServer \<Rightarrow> world \<Rightarrow> (error + NginxServer) \<times> world" where
  "disable cfg srv w =
     (if \<not> enabled srv then (Inr srv, w)
      else (case rmSync (enabledPath cfg (name srv)) w of
              (Inl e, w1) \<Rightarrow> (Inl e, w1)
            | (Inr _, w1) \<Rightarrow> (Inr (srv\<lparr>enabled := False\<rparr>), w1)))"

definition toggle :: "Config \<Rightarrow> NginxServer \<Rightarrow> world \<Rightarrow> (error + NginxServer) \<times> world" where
  "toggle cfg srv w = (if enabled srv then disable cfg srv w else enable cfg srv w)"

section \<open>Replacing in a string\<close>

fun getSubstitution :: "string \<Rightarrow> string \<Rightarrow> string \<Rightarrow> string \<Rightarrow> string" where
  \<comment> \<open>the text that \<^verbatim>\<open>replace\<close> puts in for the replacement string \<open>repl\<close>, for a regular
      expression without capture groups: \<^verbatim>\<open>$$\<close> is a dollar sign, \<^verbatim>\<open>$&\<close> the matched text,
      \<^verbatim>\<open>$`\<close> the text to the left of the match and \<^verbatim>\<open>$'\<close> the text to its right\<close>
  "getSubstitution [] matched left right = []"
| "getSubstitution [c] matched left right = [c]"
| "getSubstitution (c # d # r) matched left right =
     (if c = CHR ''$'' \<and> d = CHR ''$'' then CHR ''$'' # getSubstitution r matched left right
      else if c = CHR ''$'' \<and> d = CHR ''&'' then matched @ getSubstitution r matched left right
      else if c = CHR ''$'' \<and> d = CHR 0x60 then left @ getSubstitution r matched left right
      else if c = CHR ''$'' \<and> d = CHR 0x27 then right @ getSubstitution r matched left right
      else c # getSubstitution (d # r) matched left right)"

function replaceFrom :: "regex \<Rightarrow> string \<Rightarrow> string \<Rightarrow> string \<Rightarrow> string" where
  \<comment> \<open>\<^verbatim>\<open>replace\<close> with the \<^verbatim>\<open>g\<close> flag, from the point where \<open>left\<close> has been read\<close>
  "replaceFrom r repl left s =
     (case matches r (s, None) of
        [] \<Rightarrow> (case s of [] \<Rightarrow> [] | c # cs \<Rightarrow> c # replaceFrom r repl (left @ [c]) cs)
      | m # _ \<Rightarrow>
          if length (fst m) < length s
          then getSubstitution repl (take (length s - length (fst m)) s) left (fst m)
               @ replaceFrom r repl (left @ take (length s - length (fst m)) s) (fst m)
          else getSubstitution repl [] left s
               @ (case s of [] \<Rightarrow> [] | c # cs \<Rightarrow> c # replaceFrom r repl (left @ [c]) cs))"
  by pat_completeness auto
termination
  by (relation "measure (\<lambda>(r, repl, left, s). length s)") auto

definition replaceAll :: "regex \<Rightarrow> string \<Rightarrow> string \<Rightarrow> string" where
  \<comment> \<open>\<^verbatim>\<open>s.replace(/r/g, repl)\<close>\<close>
  "replaceAll r repl s = replaceFrom r repl [] s"

section \<open>What the model leaves to the runtime\<close>

text \<open>
  The library functions whose result the program's source does not fix are parameters of
  the model: the engine's \<^verbatim>\<open>Array.prototype.sort\<close> (the language fixes its result only for
  a consistent comparator), the collation of \<^verbatim>\<open>localeCompare\<close>, the YAML library, the
  order in which the system lists a directory, and the path of the tool's own
  configuration file.
\<close>

record siteData =
  data_name :: string
  data_host :: string
  data_port :: "int option"
  data_root :: string
  data_index :: string
  data_php :: string
  data_proxyUrl :: string

text \<open>
  A field of the parsed YAML document is a string, the port an integer.  A field that is
  absent or \<^verbatim>\<open>null\<close> is the empty string (for the port, \<open>None\<close>): the program tests
  these fields for truthiness only, and an absent field, \<^verbatim>\<open>null\<close> and the empty string are
  all falsy.  A text that is not a YAML mapping counts as an error of the parse: the
  program throws at its first access to a field, inside the same \<^verbatim>\<open>try\<close> block.
\<close>

record yamlConfig =
  yaml_nginxPath :: "string option"
  yaml_sitesAvailable :: "string option"
  yaml_sitesEnabled :: "string option"
  yaml_defaultVhosts :: "string option"

record runtime =
  arraySort :: "(NginxServer \<Rightarrow> NginxServer \<Rightarrow> int) \<Rightarrow> NginxServer list \<Rightarrow> NginxServer list"
  localeCompare :: "string \<Rightarrow> string \<Rightarrow> int"
  yamlParseSite :: "string \<Rightarrow> error + siteData"
  yamlParseConfig :: "string \<Rightarrow> error + yamlConfig"
  yamlDefaultConfig :: string
  listDir :: "fs \<Rightarrow> string \<Rightarrow> error + string list"
  configPath :: string

section \<open>Creating a site\<close>

definition nl :: string where
  "nl = [CHR 0x0A]"

definition truthyNumber :: "int option \<Rightarrow> bool" where
  "truthyNumber p = (case p of None \<Rightarrow> False | Some n \<Rightarrow> n \<noteq> 0)"

definition portText :: "int option \<Rightarrow> string" where
  "portText p = (case p of None \<Rightarrow> ''null'' | Some n \<Rightarrow> numberToString n)"

definition missingRequired :: "siteData \<Rightarrow> bool" where
  \<comment> \<open>\<^verbatim>\<open>!data.name || !data.host || !data.port || !data.root\<close>\<close>
  "missingRequired d =
     (data_name d = [] \<or> data_host d = [] \<or> \<not> truthyNumber (data_port d) \<or> data_root d = [])"

definition substituteRoot :: "siteData \<Rightarrow> string" where
  \<comment> \<open>lines 312 and 313\<close>
  "substituteRoot d =
     replaceAll (RClass Space) ''_''
       (replaceAll (RLit ''{host}'') (data_host d)
          (replaceAll (RLit ''{name}'') (data_name d) (data_root d)))"

definition resolveRoot :: "siteData \<Rightarrow> world \<Rightarrow> string \<times> world" where
  \<comment> \<open>lines 312 to 317\<close>
  "resolveRoot d w =
     (case existsSync (substituteRoot d) w of
        (ex, w1) \<Rightarrow>
          (if ex then substituteRoot d @ ''/'' @ data_name d else substituteRoot d, w1))"

definition resolveIndex :: "siteData \<Rightarrow> string" where
  \<comment> \<open>line 319\<close>
  "resolveIndex d =
     (if trim (data_index d) \<noteq> [] then trim (data_index d)
      else if data_php d \<noteq> [] then ''index.php'' else ''index.html'')"

definition scaffoldText :: "siteData \<Rightarrow> string" where
  \<comment> \<open>lines 322 to 335; \<open>d\<close> holds the resolved root and index\<close>
  "scaffoldText d =
     join nl
       [''<!DOCTYPE html>'',
        ''<html>'',
        ''<head>'',
        ''  <title>'' @ data_name d @ ''</title>'',
        ''</head>'',
        ''<body>'',
        ''  <h1>'' @ data_name d @ ''</h1>'',
        ''</body>'',
        ''</html>'',
        (if data_php d \<noteq> [] \<and> endsWith (data_index d) ''.php''
         then ''<?php phpinfo(); ?>'' else [])]"

definition proxyBlock :: "siteData \<Rightarrow> string" where
  "proxyBlock d =
     join nl
       [''  location / {'',
        ''    proxy_set_header X-Forwarded-For $remote_addr;'',
        ''    proxy_set_header Host $http_host;'',
        ''    proxy_set_header Upgrade $http_upgrade;'',
        ''    proxy_set_header Connection '' @ [CHR 0x22] @ ''upgrade'' @ [CHR 0x22] @ '';'',
        ''    proxy_pass       '' @ data_proxyUrl d @ '';'',
        ''  }'',
        []]"

definition phpBlock :: "siteData \<Rightarrow> string" where
  "phpBlock d =
     join nl
       [''  location ~ '' @ [CHR 0x5C] @ ''.php {'',
        ''    fastcgi_pass unix:/run/php/'' @ data_php d @ ''-fpm.sock;'',
        ''    fastcgi_split_path_info ^((?U).+'' @ [CHR 0x5C] @ ''.php)(/?.+)$;'',
        ''    fastcgi_param SCRIPT_FILENAME $document_root$fastcgi_script_name;'',
        ''    fastcgi_param PATH_INFO $fastcgi_path_info;'',
        ''    fastcgi_param PATH_TRANSLATED $document_root$fastcgi_path_info;'',
        ''    fastcgi_read_timeout 600s;'',
        ''    fastcgi_send_timeout 600s;'',
        ''    fastcgi_index ''
          @ (if endsWith (data_index d) ''.php'' then data_index d else ''index.php'') @ '';'',
        ''    include /etc/nginx/fastcgi_params;'',
        ''  }'',
        []]"

definition configText :: "siteData \<Rightarrow> string" where
  \<comment> \<open>lines 337 to 377; \<open>d\<close> holds the resolved root and index\<close>
  "configText d =
     join nl
       (List.map_filter id
          [Some ''server {'',
           Some (''  listen '' @ portText (data_port d) @ '';''),
           Some (''  server_name '' @ data_host d @ '';''),
           Some (''  root '' @ data_root d @ '';''),
           Some (''  index '' @ data_index d @ '';''),
           Some [],
           Some ''  location / {'',
           Some ''    try_files $uri $uri/ =404;'',
           Some ''  }'',
           Some [],
           (if data_proxyUrl d \<noteq> [] then Some (proxyBlock d) else None),
           (if data_php d \<noteq> [] then Some (phpBlock d) else None),
           Some ''}''])"

definition byName :: "runtime \<Rightarrow> NginxServer \<Rightarrow> NginxServer \<Rightarrow> int" where
  \<comment> \<open>\<^verbatim>\<open>(a, b) => a.name.localeCompare(b.name)\<close>\<close>
  "byName rt a b = localeCompare rt (name a) (name b)"

definition byEnabled :: "NginxServer \<Rightarrow> NginxServer \<Rightarrow> int" where
  \<comment> \<open>\<^verbatim>\<open>(a, b) => a.enabled ? -1 : 1\<close>\<close>
  "byEnabled a b = (if enabled a then - 1 else 1)"

definition pushAndSort :: "runtime \<Rightarrow> NginxServer list \<Rightarrow> NginxServer \<Rightarrow> NginxServer list" where
  \<comment> \<open>lines 380 to 382\<close>
  "pushAndSort rt servers srv = arraySort rt byEnabled (arraySort rt (byName rt) (servers @ [srv]))"

definition createSite ::
  "runtime \<Rightarrow> Config \<Rightarrow> siteData \<Rightarrow> world \<Rightarrow> NginxServer list
     \<Rightarrow> (error + unit) \<times> world \<times> NginxServer list" where
  \<comment> \<open>the body of the \<^verbatim>\<open>try\<close> block of the handler of the button "New Site", from line 304\<close>
  "createSite rt cfg d w servers =
     (if missingRequired d then (Inl (Error ''Missing one or more required fields''), w, servers)
      else
        (case existsSync (availablePath cfg (data_name d)) w of
           (True, w1) \<Rightarrow> (Inl (Error ''Site already exists''), w1, servers)
         | (False, w1) \<Rightarrow>
             (case resolveRoot d w1 of
                (r, w2) \<Rightarrow>
                  (let d' = d\<lparr>data_root := r, data_index := resolveIndex d\<rparr> in
                   (case mkdirSync (data_root d') w2 of
                      (Inl e, w3) \<Rightarrow> (Inl e, w3, servers)
                    | (Inr _, w3) \<Rightarrow>
                        (case writeFileSync (data_root d' @ ''/'' @ data_index d') (scaffoldText d') w3 of
                           (Inl e, w4) \<Rightarrow> (Inl e, w4, servers)
                         | (Inr _, w4) \<Rightarrow>
                             (case writeFileSync (availablePath cfg (data_name d')) (configText d') w4 of
                                (Inl e, w5) \<Rightarrow> (Inl e, w5, servers)
                              | (Inr _, w5) \<Rightarrow>
                                  (case createNginxServer cfg (data_name d') w5 of
                                     (Inl e, w6) \<Rightarrow> (Inl e, w6, servers)
                                   | (Inr srv, w6) \<Rightarrow>
                                       (Inr (), w6, pushAndSort rt servers srv)))))))))"

section \<open>The handlers\<close>

text \<open>
  The state of the program: the configuration, the file system, the collection of the
  site records, the draft kept after a failed creation, and the text of the footer.  A
  handler takes the text that the editor returned as an argument (the temporary file of
  the editor is not part of the model) and returns how it ended with the new state.
\<close>

record app =
  config :: Config
  disk :: world
  nginxServers :: "NginxServer list"
  lastFailedNewSiteContent :: "string option"
  footer :: string

datatype outcome =
    Unchanged  \<comment> \<open>the handler found the text unchanged and returned\<close>
  | Completed
  | Caught error  \<comment> \<open>an exception that the handler's \<^verbatim>\<open>catch\<close> reported in the footer\<close>
  | Uncaught error  \<comment> \<open>an exception outside any \<^verbatim>\<open>try\<close>\<close>
  | NoServer  \<comment> \<open>there is no record at the index, hence no button\<close>

definition message :: "error \<Rightarrow> string" where
  "message e = (case e of Error m \<Rightarrow> m)"

definition newSiteTemplate :: "Config \<Rightarrow> string" where
  \<comment> \<open>lines 263 to 288\<close>
  "newSiteTemplate cfg =
     join nl
       [''### Required fields'',
        ''# Site name'',
        ''name: '',
        [],
        ''# Server hostname (etc: example.com www.example.com)'',
        ''host: '',
        [],
        ''# Port to listen on'',
        ''port: 80'',
        [],
        ''# Root directory ({name}, {host} will be replaced with site name and host respectively)'',
        ''root: '' @ defaultVhosts cfg @ ''/{name}'',
        [],
        [],
        ''### Optional fields'',
        ''# Index file (Default: index.html - PHP default: index.php))'',
        ''index: '',
        [],
        ''# PHP version (php7.4, php8.0)'',
        ''php: '',
        [],
        ''# Proxy URL (http://localhost:8080)'',
        ''proxyUrl: '',
        []]"

definition draftSaved :: "error \<Rightarrow> string" where
  \<comment> \<open>line 390\<close>
  "draftSaved e =
     ''Error: '' @ message e @ ''. Draft saved. Click '' @ [CHR 0x22] @ ''New site''
       @ [CHR 0x22] @ '' to edit it again.''"

definition newSiteButton_press :: "runtime \<Rightarrow> string \<Rightarrow> app \<Rightarrow> outcome \<times> app" where
  \<comment> \<open>lines 262 to 393\<close>
  "newSiteButton_press rt edited st =
     (let initialContent =
            (case lastFailedNewSiteContent st of
               Some c \<Rightarrow> c | None \<Rightarrow> newSiteTemplate (config st))
      in if trim edited = trim initialContent
         then (Unchanged, st\<lparr>footer := ''No changes made, aborting''\<rparr>)
         else
           (case yamlParseSite rt edited of
              Inl e \<Rightarrow>
                (Caught e, st\<lparr>lastFailedNewSiteContent := Some edited, footer := draftSaved e\<rparr>)
            | Inr d \<Rightarrow>
                (case createSite rt (config st) d (disk st) (nginxServers st) of
                   (Inl e, w, servers) \<Rightarrow>
                     (Caught e,
                      st\<lparr>disk := w, lastFailedNewSiteContent := Some edited,
                         footer := draftSaved e\<rparr>)
                 | (Inr _, w, servers) \<Rightarrow>
                     (Completed,
                      st\<lparr>disk := w, nginxServers := servers,
                         lastFailedNewSiteContent := None\<rparr>))))"

definition detailsEdit_press :: "nat \<Rightarrow> string \<Rightarrow> app \<Rightarrow> outcome \<times> app" where
  \<comment> \<open>lines 490 to 511, for the record at index \<open>i\<close>\<close>
  "detailsEdit_press i edited st =
     (if length (nginxServers st) \<le> i then (NoServer, st)
      else
        (let server = nginxServers st ! i in
         (case readFileSync (availablePath (config st) (name server)) (disk st) of
            (Inl e, w1) \<Rightarrow> (Uncaught e, st\<lparr>disk := w1\<rparr>)
          | (Inr data, w1) \<Rightarrow>
              if edited = data then (Unchanged, st\<lparr>disk := w1, footer := ''No changes made''\<rparr>)
              else
                (case writeFileSync (availablePath (config st) (name server)) edited w1 of
                   (Inl e, w2) \<Rightarrow> (Caught e, st\<lparr>disk := w2, footer := ''Error: '' @ message e\<rparr>)
                 | (Inr _, w2) \<Rightarrow>
                     (case reload (config st) server w2 of
                        (Inl e, w3) \<Rightarrow>
                          (Caught e, st\<lparr>disk := w3, footer := ''Error: '' @ message e\<rparr>)
                      | (Inr server', w3) \<Rightarrow>
                          (Completed,
                           st\<lparr>disk := w3,
                              nginxServers := (nginxServers st)[i := server']\<rparr>))))))"

definition orDefault :: "string \<Rightarrow> string \<Rightarrow> string" where
  \<comment> \<open>\<^verbatim>\<open>x ||= d\<close>\<close>
  "orDefault x d = (if x = [] then d else x)"

definition assignConfig :: "Config \<Rightarrow> yamlConfig \<Rightarrow> Config" where
  \<comment> \<open>lines 45 to 50: \<^verbatim>\<open>Object.assign\<close> sets the keys that the document has; then the defaults\<close>
  "assignConfig cfg y =
     (let np = orDefault (case yaml_nginxPath y of Some v \<Rightarrow> v | None \<Rightarrow> nginxPath cfg)
                 ''/etc/nginx''
      in \<lparr>nginxPath = np,
          sitesAvailable =
            orDefault (case yaml_sitesAvailable y of Some v \<Rightarrow> v | None \<Rightarrow> sitesAvailable cfg)
              (np @ ''/sites-available''),
          sitesEnabled =
            orDefault (case yaml_sitesEnabled y of Some v \<Rightarrow> v | None \<Rightarrow> sitesEnabled cfg)
              (np @ ''/sites-enabled''),
          defaultVhosts =
            orDefault (case yaml_defaultVhosts y of Some v \<Rightarrow> v | None \<Rightarrow> defaultVhosts cfg)
              ''/var/www/html''\<rparr>)"

definition refreshConfig :: "runtime \<Rightarrow> Config \<Rightarrow> world \<Rightarrow> (error + Config) \<times> world" where
  \<comment> \<open>lines 35 to 51\<close>
  "refreshConfig rt cfg w =
     (case existsSync (configPath rt) w of
        (ex, w1) \<Rightarrow>
          (case (if ex then (Inr (), w1)
                 else writeFileSync (configPath rt) (yamlDefaultConfig rt) w1) of
             (Inl e, w2) \<Rightarrow> (Inl e, w2)
           | (Inr _, w2) \<Rightarrow>
               (case readFileSync (configPath rt) w2 of
                  (Inl e, w3) \<Rightarrow> (Inl e, w3)
                | (Inr content, w3) \<Rightarrow>
                    (case yamlParseConfig rt content of
                       Inl e \<Rightarrow> (Inl e, w3)
                     | Inr y \<Rightarrow> (Inr (assignConfig cfg y), w3)))))"

fun createAll :: "Config \<Rightarrow> string list \<Rightarrow> world \<Rightarrow> (error + NginxServer list) \<times> world" where
  \<comment> \<open>\<^verbatim>\<open>files.map(createNginxServer)\<close>\<close>
  "createAll cfg [] w = (Inr [], w)"
| "createAll cfg (n # ns) w =
     (case createNginxServer cfg n w of
        (Inl e, w1) \<Rightarrow> (Inl e, w1)
      | (Inr srv, w1) \<Rightarrow>
          (case createAll cfg ns w1 of
             (Inl e, w2) \<Rightarrow> (Inl e, w2)
           | (Inr srvs, w2) \<Rightarrow> (Inr (srv # srvs), w2)))"

definition loadNginxServers ::
  "runtime \<Rightarrow> Config \<Rightarrow> world \<Rightarrow> (error + unit) \<times> world \<times> NginxServer list" where
  \<comment> \<open>lines 122 to 126: the collection is emptied first, and stays empty when a step fails\<close>
  "loadNginxServers rt cfg w =
     (case listDir rt (files w) (sitesAvailable cfg) of
        Inl e \<Rightarrow> (Inl e, logOp (ReaddirSync (sitesAvailable cfg)) w, [])
      | Inr names \<Rightarrow>
          (case createAll cfg names (logOp (ReaddirSync (sitesAvailable cfg)) w) of
             (Inl e, w1) \<Rightarrow> (Inl e, w1, [])
           | (Inr srvs, w1) \<Rightarrow> (Inr (), w1, srvs)))"

definition undoConfig :: "runtime \<Rightarrow> string \<Rightarrow> error \<Rightarrow> app \<Rightarrow> outcome \<times> app" where
  \<comment> \<open>lines 222 to 225\<close>
  "undoConfig rt initialContent e st =
     (case writeFileSync (configPath rt) initialContent (disk st) of
        (Inl e', w) \<Rightarrow> (Uncaught e', st\<lparr>disk := w\<rparr>)
      | (Inr _, w) \<Rightarrow>
          (Caught e,
           st\<lparr>disk := w,
              footer := ''Undid changeds - Config update failed: '' @ message e\<rparr>))"

definition editConfigButton_press :: "runtime \<Rightarrow> string \<Rightarrow> app \<Rightarrow> outcome \<times> app" where
  \<comment> \<open>lines 199 to 231\<close>
  "editConfigButton_press rt edited st =
     (case readFileSync (configPath rt) (disk st) of
        (Inl e, w1) \<Rightarrow> (Uncaught e, st\<lparr>disk := w1\<rparr>)
      | (Inr initialContent, w1) \<Rightarrow>
          if edited \<noteq> initialContent then
            (case writeFileSync (configPath rt) edited w1 of
               (Inl e, w2) \<Rightarrow> undoConfig rt initialContent e (st\<lparr>disk := w2\<rparr>)
             | (Inr _, w2) \<Rightarrow>
                 (case refreshConfig rt (config st) w2 of
                    (Inl e, w3) \<Rightarrow> undoConfig rt initialContent e (st\<lparr>disk := w3\<rparr>)
                  | (Inr cfg, w3) \<Rightarrow>
                      (case loadNginxServers rt cfg w3 of
                         (Inl e, w4, srvs) \<Rightarrow>
                           undoConfig rt initialContent e
                             (st\<lparr>config := cfg, disk := w4, nginxServers := srvs,
                                footer := ''Config updated''\<rparr>)
                       | (Inr _, w4, srvs) \<Rightarrow>
                           (Completed,
                            st\<lparr>config := cfg, disk := w4, nginxServers := srvs,
                               footer := ''Config updated''\<rparr>))))
          else (Unchanged, st\<lparr>disk := w1, footer := ''Config unchanged''\<rparr>))"

definition detailsToggle_press :: "nat \<Rightarrow> app \<Rightarrow> outcome \<times> app" where
  \<comment> \<open>lines 532 to 536, for the record at index \<open>i\<close>\<close>
  "detailsToggle_press i st =
     (if length (nginxServers st) \<le> i then (NoServer, st)
      else
        (case toggle (config st) (nginxServers st ! i) (disk st) of
           (Inl e, w) \<Rightarrow> (Uncaught e, st\<lparr>disk := w\<rparr>)
         | (Inr srv, w) \<Rightarrow> (Completed, st\<lparr>disk := w, nginxServers := (nginxServers st)[i := srv]\<rparr>)))"

section \<open>Operations on the registry\<close>

datatype action = Create siteData | Enable nat | Disable nat

definition applyAction :: "runtime \<Rightarrow> action \<Rightarrow> app \<Rightarrow> app" where
  \<comment> \<open>one operation on the collection; an operation that fails leaves the records as they
      are and keeps what it did to the file system; \<open>Enable i\<close> and \<open>Disable i\<close> call the
      method of the record at index \<open>i\<close>\<close>
  "applyAction rt a st =
     (case a of
        Create d \<Rightarrow>
          (case createSite rt (config st) d (disk st) (nginxServers st) of
             (_, w, servers) \<Rightarrow> st\<lparr>disk := w, nginxServers := servers\<rparr>)
      | Enable i \<Rightarrow>
          (if length (nginxServers st) \<le> i then st
           else (case enable (config st) (nginxServers st ! i) (disk st) of
                   (Inl e, w) \<Rightarrow> st\<lparr>disk := w\<rparr>
                 | (Inr srv, w) \<Rightarrow> st\<lparr>disk := w, nginxServers := (nginxServers st)[i := srv]\<rparr>))
      | Disable i \<Rightarrow>
          (if length (nginxServers st) \<le> i then st
           else (case disable (config st) (nginxServers st ! i) (disk st) of
                   (Inl e, w) \<Rightarrow> st\<lparr>disk := w\<rparr>
                 | (Inr srv, w) \<Rightarrow> st\<lparr>disk := w, nginxServers := (nginxServers st)[i := srv]\<rparr>)))"

fun run :: "runtime \<Rightarrow> action list \<Rightarrow> app \<Rightarrow> app" where
  "run rt [] st = st"
| "run rt (a # as) st = run rt as (applyAction rt a st)"




section \<open>A concrete runtime and concrete inputs\<close>

fun insertBy :: "('a \<Rightarrow> 'a \<Rightarrow> int) \<Rightarrow> 'a \<Rightarrow> 'a list \<Rightarrow> 'a list" where
  "insertBy cmp x [] = [x]"
| "insertBy cmp x (y # ys) = (if cmp x y \<le> 0 then x # y # ys else y # insertBy cmp x ys)"

definition insertionSort :: "('a \<Rightarrow> 'a \<Rightarrow> int) \<Rightarrow> 'a list \<Rightarrow> 'a list" where
  "insertionSort cmp xs = foldr (insertBy cmp) xs []"

fun compareUnits :: "string \<Rightarrow> string \<Rightarrow> int" where
  "compareUnits [] [] = 0"
| "compareUnits [] (y # ys) = - 1"
| "compareUnits (x # xs) [] = 1"
| "compareUnits (x # xs) (y # ys) =
     (if (of_char x :: nat) < of_char y then - 1
      else if (of_char y :: nat) < of_char x then 1 else compareUnits xs ys)"

definition exampleRuntime :: runtime where
  \<comment> \<open>one runtime among those the model admits: an insertion sort, the order of the code
      units, a YAML library that rejects every text, and empty directory listings\<close>
  "exampleRuntime =
     \<lparr>arraySort = insertionSort,
      localeCompare = compareUnits,
      yamlParseSite = (\<lambda>s. Inl (Error ''YAMLParseError'')),
      yamlParseConfig = (\<lambda>s. Inl (Error ''YAMLParseError'')),
      yamlDefaultConfig = [],
      listDir = (\<lambda>f p. Inr []),
      configPath = ''/root/.ngx/ngx.yaml''\<rparr>"

definition defaultConfig :: Config where
  \<comment> \<open>the defaults of lines 38 to 41\<close>
  "defaultConfig =
     \<lparr>nginxPath = ''/etc/nginx'',
      sitesAvailable = ''/etc/nginx/sites-available'',
      sitesEnabled = ''/etc/nginx/sites-enabled'',
      defaultVhosts = ''/var/www/html''\<rparr>"

definition emptyWorld :: world where
  "emptyWorld = \<lparr>files = Map.empty, trace = []\<rparr>"

definition blogRequest :: siteData where
  "blogRequest =
     \<lparr>data_name = ''blog'', data_host = ''blog.test'', data_port = Some 80,
      data_root = ''/var/www/html/{name}'', data_index = [], data_php = [],
      data_proxyUrl = []\<rparr>"

definition blogWorld :: world where
  \<comment> \<open>the file system after the site of \<open>blogRequest\<close> has been created in an empty one\<close>
  "blogWorld = fst (snd (createSite exampleRuntime defaultConfig blogRequest emptyWorld []))"

definition blogServers :: "NginxServer list" where
  "blogServers = snd (snd (createSite exampleRuntime defaultConfig blogRequest emptyWorld []))"

definition blogServer :: NginxServer where
  "blogServer =
     \<lparr>name = ''blog'', hosts = [''blog.test''], port = [80], root = ''/var/www/html/blog'',
      enabled = False\<rparr>"

definition specFirstMissingField :: "siteData \<Rightarrow> string option" where
  \<comment> \<open>Following the specification's words: the first of the required fields, in the order
      name, host, port, root, that the request lacks.\<close>
  "specFirstMissingField d =
     (if data_name d = [] then Some ''name''
      else if data_host d = [] then Some ''host''
      else if \<not> truthyNumber (data_port d) then Some ''port''
      else if data_root d = [] then Some ''root'' else None)"

definition emptyApp :: app where
  "emptyApp =
     \<lparr>config = defaultConfig, disk = emptyWorld, nginxServers = [],
      lastFailedNewSiteContent = None, footer = []\<rparr>"

definition blogApp :: app where
  "blogApp = emptyApp\<lparr>disk := blogWorld, nginxServers := blogServers\<rparr>"



definition blogConfig :: string where
  "blogConfig =
     configText (blogRequest\<lparr>data_root := ''/var/www/html/blog'', data_index := ''index.html''\<rparr>)"

fun specFillPlaceholders :: "string \<Rightarrow> string \<Rightarrow> string \<Rightarrow> string" where
  \<comment> \<open>Following the specification's words: every occurrence of the literal placeholders
      \<^verbatim>\<open>{name}\<close> and \<^verbatim>\<open>{host}\<close> in the template is replaced by the name and by the host.\<close>
  "specFillPlaceholders n h [] = []"
| "specFillPlaceholders n h (c # cs) =
     (if prefix ''{name}'' (c # cs) then n @ specFillPlaceholders n h (drop 5 cs)
      else if prefix ''{host}'' (c # cs) then h @ specFillPlaceholders n h (drop 5 cs)
      else c # specFillPlaceholders n h cs)"

definition specResolveRoot :: "siteData \<Rightarrow> world \<Rightarrow> string" where
  \<comment> \<open>Following the specification's words: the placeholders are filled in, then every
      whitespace character becomes an underscore, and a path that exists gets the name
      appended as a subdirectory.\<close>
  "specResolveRoot d w =
     (let r = map (\<lambda>c. if isSpace c then CHR ''_'' else c)
                (specFillPlaceholders (data_name d) (data_host d) (data_root d))
      in if fst (existsSync r w) then r @ ''/'' @ data_name d else r)"

definition plainWorld :: world where
  \<comment> \<open>a file system with one site file, which has no \<^verbatim>\<open>server_name\<close> directive\<close>
  "plainWorld =
     \<lparr>files = [''/etc/nginx/sites-available/plain'' \<mapsto> File ''listen 80;''], trace = []\<rparr>"

definition plainServer :: NginxServer where
  "plainServer = \<lparr>name = ''plain'', hosts = [], port = [], root = [], enabled = False\<rparr>"

section \<open>Definitions for the statements about parsing\<close>

fun backoff :: "(char \<Rightarrow> bool) \<Rightarrow> string \<Rightarrow> string list" where
  \<comment> \<open>what is left of a text after a greedy run of characters of a class, in the order in
      which a backtracking matcher tries: the longest run first\<close>
  "backoff P [] = [[]]"
| "backoff P (x # xs) = (if P x then backoff P xs @ [x # xs] else [x # xs])"








section \<open>Facts about the file system\<close>

lemma files_logOp [simp]: "files (logOp x w) = files w"
  by (simp add: logOp_def)

lemma trace_logOp [simp]: "trace (logOp x w) = trace w @ [x]"
  by (simp add: logOp_def)

lemma follow_not_link: "follow n f p = Some (q, x) \<Longrightarrow> f q = x \<and> (\<forall>t. x \<noteq> Some (Link t))"
  by (induction n arbitrary: p) (auto split: option.splits node.splits)

lemma follow_write:
  "follow n f p = Some (q, x) \<Longrightarrow> follow n (f(q \<mapsto> File d)) p = Some (q, Some (File d))"
proof (induction n arbitrary: p)
  case 0
  then show ?case by simp
next
  case (Suc n)
  show ?case
  proof (cases "\<exists>t. f p = Some (Link t)")
    case True
    then obtain t where t: "f p = Some (Link t)" by blast
    with Suc.prems have r: "follow n f t = Some (q, x)" by simp
    from follow_not_link[OF r] t have "p \<noteq> q" by auto
    with t Suc.IH[OF r] show ?thesis by simp
  next
    case False
    with Suc.prems have "p = q" by (auto split: option.splits node.splits)
    then show ?thesis by simp
  qed
qed

lemma exists_after_write:
  assumes "writeFileSync p d w = (Inr u, w')" and "files w1 = files w'"
  shows "fst (existsSync p w1)"
  using assms follow_write[of maxLinks "files w" p _ _ d]
  by (auto simp: writeFileSync_def existsSync_def split: option.splits node.splits)

lemma reload_files: "reload cfg srv w = (r, w') \<Longrightarrow> files w' = files w"
  by (auto simp: reload_def readFileSync_def existsSync_def split: prod.splits sum.splits)

lemma createSite_exists:
  assumes "createSite rt cfg d w servers = (Inr u, w', servers')"
  shows "fst (existsSync (availablePath cfg (data_name d)) w')"
proof -
  from assms obtain w4 w5 u' txt5 where
    wr: "writeFileSync (availablePath cfg (data_name d)) txt5 w4 = (Inr u', w5)"
    and rl: "files w' = files w5"
    by (auto simp: createSite_def Let_def createNginxServer_def
        split: if_splits prod.splits bool.splits sum.splits dest: reload_files)
  then show ?thesis
    using exists_after_write[OF wr rl] by simp
qed

section \<open>Validation of a creation request\<close>

text \<open>
  Claim C5, as the code has it.  A request in which the name, the host, the port or the
  root is missing or empty (for the port: absent or zero) is refused with an error before
  any call of the file system: the file system and its trace are returned as they were,
  and so is the collection.  The message of the error is the fixed text
  \<^verbatim>\<open>Missing one or more required fields\<close>; it does not name a field.
\<close>

theorem C5_missing_field_no_write:
  "missingRequired d \<Longrightarrow>
   createSite rt cfg d w servers =
     (Inl (Error ''Missing one or more required fields''), w, servers)"
  by (simp add: createSite_def)

theorem C5_missing_field_no_write_witness:
  "missingRequired (blogRequest\<lparr>data_host := []\<rparr>) \<and>
   createSite exampleRuntime defaultConfig (blogRequest\<lparr>data_host := []\<rparr>) emptyWorld [] =
     (Inl (Error ''Missing one or more required fields''), emptyWorld, [])"
proof -
  have h: "missingRequired (blogRequest\<lparr>data_host := []\<rparr>)"
    by (simp add: missingRequired_def)
  from h C5_missing_field_no_write [OF h, of exampleRuntime defaultConfig emptyWorld "[]"]
  show ?thesis by simp
qed

text \<open>
  Claim C5 as the specification states it fails: for the request of the scenario with
  the host left empty, the first missing field is the host, and the message of the error
  does not contain the word.
\<close>

theorem C5_message_names_no_field:
  "specFirstMissingField (blogRequest\<lparr>data_host := []\<rparr>) = Some ''host'' \<and>
   fst (createSite exampleRuntime defaultConfig (blogRequest\<lparr>data_host := []\<rparr>) emptyWorld [])
     = Inl (Error ''Missing one or more required fields'') \<and>
   \<not> sublist ''host'' (message (Error ''Missing one or more required fields''))"
proof -
  have "\<not> sublist ''host'' ''Missing one or more required fields''"
    by code_simp
  then show ?thesis
    by (simp add: specFirstMissingField_def blogRequest_def createSite_def missingRequired_def
        message_def)
qed

section \<open>A name that is taken\<close>

text \<open>
  Claim C6, as the code has it.  The required fields are checked first.  A request that
  has them all and whose name is the name of an entry of \<^verbatim>\<open>sitesAvailable\<close> is refused
  with the error \<^verbatim>\<open>Site already exists\<close>; the only call of the file system is the test
  for that entry, so every file is as it was.  After a creation that succeeded, a second
  request with the same name and all required fields is refused in this way.
\<close>

theorem C6_valid_duplicate_refused:
  "(\<not> missingRequired d \<and> fst (existsSync (availablePath cfg (data_name d)) w)
      \<longrightarrow> createSite rt cfg d w servers =
            (Inl (Error ''Site already exists''),
             w\<lparr>trace := trace w @ [ExistsSync (availablePath cfg (data_name d))]\<rparr>, servers))
   \<and> (createSite rt cfg d0 w0 servers0 = (Inr (), w1, servers1)
        \<and> \<not> missingRequired d1 \<and> data_name d1 = data_name d0
      \<longrightarrow> createSite rt cfg d1 w1 servers1 =
            (Inl (Error ''Site already exists''),
             w1\<lparr>trace := trace w1 @ [ExistsSync (availablePath cfg (data_name d0))]\<rparr>,
             servers1))"
proof -
  have first: "createSite rt cfg d w servers =
      (Inl (Error ''Site already exists''),
       w\<lparr>trace := trace w @ [ExistsSync (availablePath cfg (data_name d))]\<rparr>, servers)"
    if "\<not> missingRequired d" and "fst (existsSync (availablePath cfg (data_name d)) w)"
    for d w servers
    using that
    by (auto simp: createSite_def existsSync_def logOp_def split: prod.splits bool.splits)
  show ?thesis
    using first createSite_exists by metis
qed

theorem C6_valid_duplicate_refused_witness:
  "fst (createSite exampleRuntime defaultConfig blogRequest emptyWorld []) = Inr () \<and>
   createSite exampleRuntime defaultConfig (blogRequest\<lparr>data_host := ''other.test''\<rparr>)
       blogWorld blogServers =
     (Inl (Error ''Site already exists''),
      blogWorld\<lparr>trace := trace blogWorld @ [ExistsSync ''/etc/nginx/sites-available/blog'']\<rparr>,
      blogServers)"
proof -
  have ok: "fst (createSite exampleRuntime defaultConfig blogRequest emptyWorld []) = Inr ()"
    by code_simp
  then have run: "createSite exampleRuntime defaultConfig blogRequest emptyWorld [] =
      (Inr (), blogWorld, blogServers)"
    by (simp add: blogWorld_def blogServers_def prod_eq_iff)
  have valid: "\<not> missingRequired (blogRequest\<lparr>data_host := ''other.test''\<rparr>)"
    by (simp add: missingRequired_def blogRequest_def truthyNumber_def)
  have same: "data_name (blogRequest\<lparr>data_host := ''other.test''\<rparr>) = data_name blogRequest"
    by simp
  have path: "availablePath defaultConfig (data_name blogRequest) = ''/etc/nginx/sites-available/blog''"
    by (simp add: availablePath_def defaultConfig_def blogRequest_def)
  from C6_valid_duplicate_refused [where rt = exampleRuntime and cfg = defaultConfig
      and ?d0.0 = blogRequest and ?w0.0 = emptyWorld and ?servers0.0 = "[]"
      and ?w1.0 = blogWorld and ?servers1.0 = blogServers
      and ?d1.0 = "blogRequest\<lparr>data_host := ''other.test''\<rparr>"]
    run valid same path ok
  show ?thesis by simp
qed

text \<open>
  Claim C6 as the specification states it fails for a request that lacks a required
  field: with the site \<^verbatim>\<open>blog\<close> present, a request with that name and no host is refused
  for the missing field, not for the name.
\<close>

theorem C6_missing_field_comes_first:
  "fst (existsSync (availablePath defaultConfig (data_name (blogRequest\<lparr>data_host := []\<rparr>)))
         blogWorld) = True \<and>
   fst (createSite exampleRuntime defaultConfig (blogRequest\<lparr>data_host := []\<rparr>)
         blogWorld blogServers) = Inl (Error ''Missing one or more required fields'')"
proof -
  have ok: "createSite exampleRuntime defaultConfig blogRequest emptyWorld [] =
      (fst (createSite exampleRuntime defaultConfig blogRequest emptyWorld []), blogWorld, blogServers)"
    by (simp add: blogWorld_def blogServers_def prod_eq_iff)
  have "fst (createSite exampleRuntime defaultConfig blogRequest emptyWorld []) = Inr ()"
    by code_simp
  with ok have "fst (existsSync (availablePath defaultConfig (data_name blogRequest)) blogWorld)"
    using createSite_exists by metis
  then show ?thesis
    by (simp add: createSite_def missingRequired_def)
qed

section \<open>The order of the collection\<close>








lemma blog_created:
  "createSite exampleRuntime defaultConfig blogRequest emptyWorld [] = (Inr (), blogWorld, [blogServer])"
proof -
  have "fst (createSite exampleRuntime defaultConfig blogRequest emptyWorld []) = Inr ()"
    by code_simp
  moreover have "snd (snd (createSite exampleRuntime defaultConfig blogRequest emptyWorld [])) = [blogServer]"
    by code_simp
  ultimately show ?thesis
    by (simp add: blogWorld_def prod_eq_iff)
qed












section \<open>The scenario of the site \<^verbatim>\<open>blog\<close>\<close>





section \<open>Resolving the root\<close>

text \<open>
  Claim C7 at an input where the code does not do what the claim (and the template's own
  comment, line 274) says.  The replacement string of \<^verbatim>\<open>replace\<close> is the name itself, and
  \<^verbatim>\<open>replace\<close> reads \<^verbatim>\<open>$$\<close> in a replacement string as one dollar sign: for the name
  \<^verbatim>\<open>a$$b\<close> the code resolves the root to \<^verbatim>\<open>/var/www/html/a$b\<close>, where replacing the
  placeholder by the name gives \<^verbatim>\<open>/var/www/html/a$$b\<close>.
\<close>

theorem C7_dollar_in_name:
  "fst (resolveRoot (blogRequest\<lparr>data_name := ''a$$b''\<rparr>) emptyWorld) = ''/var/www/html/a$b''
   \<and> specResolveRoot (blogRequest\<lparr>data_name := ''a$$b''\<rparr>) emptyWorld = ''/var/www/html/a$$b''"
proof -
  have "fst (resolveRoot (blogRequest\<lparr>data_name := ''a$$b''\<rparr>) emptyWorld) = ''/var/www/html/a$b''"
    by code_simp
  moreover have "specResolveRoot (blogRequest\<lparr>data_name := ''a$$b''\<rparr>) emptyWorld = ''/var/www/html/a$$b''"
    by code_simp
  ultimately show ?thesis by simp
qed


section \<open>Enabling and disabling\<close>




section \<open>A file without a \<^verbatim>\<open>server_name\<close> directive\<close>

lemma search_None: "search r s = None \<longleftrightarrow> (\<forall>i \<le> length s. matches r (drop i s, None) = [])"
proof (induction s)
  case Nil
  then show ?case by (auto split: list.splits)
next
  case (Cons a s)
  have "(\<forall>i \<le> length (a # s). matches r (drop i (a # s), None) = []) \<longleftrightarrow>
        matches r (a # s, None) = [] \<and> (\<forall>i \<le> length s. matches r (drop i s, None) = [])"
    (is "?L \<longleftrightarrow> ?R")
  proof
    assume l: ?L
    then have "matches r (drop 0 (a # s), None) = []" by blast
    moreover have "matches r (drop i s, None) = []" if "i \<le> length s" for i
      using l[rule_format, of "Suc i"] that by simp
    ultimately show ?R by simp
  next
    assume r: ?R
    show ?L
    proof (intro allI impI)
      fix i assume "i \<le> length (a # s)"
      then show "matches r (drop i (a # s), None) = []"
        using r by (cases i) auto
    qed
  qed
  with Cons show ?case by (auto split: list.splits)
qed

lemma serverName_needs_literal:
  "matches serverNameRe (t, c) \<noteq> [] \<Longrightarrow> prefix ''server_name'' t"
  by (simp add: serverNameRe_def split: if_splits)

lemma no_literal_no_match:
  assumes "\<not> sublist ''server_name'' content"
  shows "search serverNameRe content = None"
proof -
  have "matches serverNameRe (drop i content, None) = []" for i
  proof (rule ccontr)
    assume "matches serverNameRe (drop i content, None) \<noteq> []"
    then have "prefix ''server_name'' (drop i content)" by (rule serverName_needs_literal)
    then obtain zs where "drop i content = ''server_name'' @ zs" by (auto simp: prefix_def)
    then have "content = take i content @ ''server_name'' @ zs"
      by (metis append_take_drop_id)
    then have "sublist ''server_name'' content" unfolding sublist_def by blast
    with assms show False by simp
  qed
  then show ?thesis by (simp add: search_None)
qed


text \<open>
  Claim C4, as the code has it.  For a file in which the text \<^verbatim>\<open>server_name\<close> does not
  occur, or more generally in which the pattern of the directive finds no match, parsing
  does not fail, and the hosts are the sequence with one element, the empty string: the
  code splits the empty string at the spaces (line 80), and splitting the empty string
  gives one empty piece.
\<close>

theorem C4_no_server_name:
  assumes "\<not> sublist ''server_name'' content \<or> search serverNameRe content = None"
    and "fst (readFileSync (availablePath cfg (name srv)) w) = Inr content"
  shows "parseHosts content = [[]] \<and>
         (\<exists>srv'. fst (reload cfg srv w) = Inr srv' \<and> hosts srv' = [[]])"
proof -
  from assms(1) have "search serverNameRe content = None"
    using no_literal_no_match by blast
  then have h: "parseHosts content = [[]]"
    by (simp add: parseHosts_def group1_def)
  with assms(2) show ?thesis
    by (auto simp: reload_def split: prod.splits sum.splits)
qed


theorem C4_no_server_name_witness:
  "\<not> sublist ''server_name'' ''listen 80;''
   \<and> fst (readFileSync (availablePath defaultConfig (name plainServer)) plainWorld) = Inr ''listen 80;''
   \<and> parseHosts ''listen 80;'' = [[]]
   \<and> (\<exists>srv'. fst (reload defaultConfig plainServer plainWorld) = Inr srv' \<and> hosts srv' = [[]])"
proof -
  have a: "\<not> sublist ''server_name'' ''listen 80;''" by code_simp
  have b: "fst (readFileSync (availablePath defaultConfig (name plainServer)) plainWorld) = Inr ''listen 80;''"
    by code_simp
  from a b C4_no_server_name [OF disjI1 [OF a] b] show ?thesis by simp
qed

text \<open>
  Claim C4 as the specification states it fails: for a file without the directive the
  hosts are not the empty sequence.
\<close>

theorem C4_hosts_not_empty:
  "search serverNameRe ''listen 80;'' = None
   \<and> parseHosts ''listen 80;'' = [[]]
   \<and> parseHosts ''listen 80;'' \<noteq> []"
proof -
  have "search serverNameRe ''listen 80;'' = None" by code_simp
  moreover have "parseHosts ''listen 80;'' = [[]]" by code_simp
  ultimately show ?thesis by simp
qed

section \<open>Leaving the editor without a change\<close>

text \<open>
  Claim C8, as the code has it.  Each of the three handlers returns early, leaving the
  configuration, the files, the collection and the draft as they were (the footer gets
  a message), exactly when its comparison finds the text unchanged.  The handler of a
  record and the handler of the tool's configuration compare the text that the editor
  returned with the text read before, character by character.  The handler of
  "New Site" compares the two texts after \<^verbatim>\<open>trim\<close> has removed the whitespace at both ends
  of each (line 294).
\<close>

theorem C8_cancellation_tests:
  "(fst (newSiteButton_press rt edited st) = Unchanged \<longleftrightarrow>
      trim edited = trim (case lastFailedNewSiteContent st of
                            Some c \<Rightarrow> c | None \<Rightarrow> newSiteTemplate (config st)))
   \<and> (fst (newSiteButton_press rt edited st) = Unchanged \<longrightarrow>
        snd (newSiteButton_press rt edited st) = st\<lparr>footer := ''No changes made, aborting''\<rparr>)
   \<and> (i < length (nginxServers st) \<and>
        fst (readFileSync (availablePath (config st) (name (nginxServers st ! i))) (disk st))
          = Inr content \<longrightarrow>
        (fst (detailsEdit_press i edited st) = Unchanged \<longleftrightarrow> edited = content)
        \<and> (edited = content \<longrightarrow>
             snd (detailsEdit_press i edited st) =
               st\<lparr>disk := logOp (ReadFileSync (availablePath (config st) (name (nginxServers st ! i))))
                               (disk st),
                  footer := ''No changes made''\<rparr>))
   \<and> (fst (readFileSync (configPath rt) (disk st)) = Inr initialContent \<longrightarrow>
        (fst (editConfigButton_press rt edited st) = Unchanged \<longleftrightarrow> edited = initialContent)
        \<and> (edited = initialContent \<longrightarrow>
             snd (editConfigButton_press rt edited st) =
               st\<lparr>disk := logOp (ReadFileSync (configPath rt)) (disk st),
                  footer := ''Config unchanged''\<rparr>))"
proof (intro conjI impI)
  show "fst (newSiteButton_press rt edited st) = Unchanged \<longleftrightarrow>
      trim edited = trim (case lastFailedNewSiteContent st of
                            Some c \<Rightarrow> c | None \<Rightarrow> newSiteTemplate (config st))"
    by (simp add: newSiteButton_press_def Let_def split: sum.splits prod.splits)
  show "snd (newSiteButton_press rt edited st) = st\<lparr>footer := ''No changes made, aborting''\<rparr>"
    if "fst (newSiteButton_press rt edited st) = Unchanged"
    using that by (simp add: newSiteButton_press_def Let_def split: sum.splits prod.splits if_splits)
next
  assume a: "i < length (nginxServers st) \<and>
        fst (readFileSync (availablePath (config st) (name (nginxServers st ! i))) (disk st))
          = Inr content"
  then have rd: "readFileSync (availablePath (config st) (name (nginxServers st ! i))) (disk st)
      = (Inr content, logOp (ReadFileSync (availablePath (config st) (name (nginxServers st ! i)))) (disk st))"
    by (simp add: readFileSync_def)
  show "fst (detailsEdit_press i edited st) = Unchanged \<longleftrightarrow> edited = content"
    using a rd by (simp add: detailsEdit_press_def Let_def split: sum.splits prod.splits)
  show "snd (detailsEdit_press i edited st) =
               st\<lparr>disk := logOp (ReadFileSync (availablePath (config st) (name (nginxServers st ! i))))
                               (disk st),
                  footer := ''No changes made''\<rparr>" if "edited = content"
    using a rd that by (simp add: detailsEdit_press_def Let_def)
next
  assume a: "fst (readFileSync (configPath rt) (disk st)) = Inr initialContent"
  then have rd: "readFileSync (configPath rt) (disk st)
      = (Inr initialContent, logOp (ReadFileSync (configPath rt)) (disk st))"
    by (simp add: readFileSync_def)
  show "fst (editConfigButton_press rt edited st) = Unchanged \<longleftrightarrow> edited = initialContent"
    using rd by (simp add: editConfigButton_press_def undoConfig_def split: sum.splits prod.splits)
  show "snd (editConfigButton_press rt edited st) =
               st\<lparr>disk := logOp (ReadFileSync (configPath rt)) (disk st),
                  footer := ''Config unchanged''\<rparr>" if "edited = initialContent"
    using rd that by (simp add: editConfigButton_press_def)
qed


theorem C8_cancellation_tests_witness:
  "fst (readFileSync (availablePath (config blogApp) (name (nginxServers blogApp ! 0))) (disk blogApp))
     = Inr blogConfig
   \<and> fst (detailsEdit_press 0 blogConfig blogApp) = Unchanged
   \<and> fst (detailsEdit_press 0 (blogConfig @ nl) blogApp) \<noteq> Unchanged
   \<and> fst (newSiteButton_press exampleRuntime (newSiteTemplate defaultConfig) emptyApp) = Unchanged
   \<and> snd (newSiteButton_press exampleRuntime (newSiteTemplate defaultConfig) emptyApp)
       = emptyApp\<lparr>footer := ''No changes made, aborting''\<rparr>
   \<and> fst (readFileSync (configPath exampleRuntime)
            (emptyWorld\<lparr>files := [configPath exampleRuntime \<mapsto> File ''nginxPath: /etc/nginx'']\<rparr>))
       = Inr ''nginxPath: /etc/nginx''
   \<and> fst (editConfigButton_press exampleRuntime ''nginxPath: /etc/nginx''
            (emptyApp\<lparr>disk := emptyWorld\<lparr>files := [configPath exampleRuntime \<mapsto> File ''nginxPath: /etc/nginx'']\<rparr>\<rparr>))
       = Unchanged"
proof -
  have len: "0 < length (nginxServers blogApp)"
    using blog_created by (simp add: blogApp_def blogServers_def)
  have rd: "fst (readFileSync (availablePath (config blogApp) (name (nginxServers blogApp ! 0))) (disk blogApp))
     = Inr blogConfig"
    by code_simp
  have tr: "trim (newSiteTemplate defaultConfig)
      = trim (case lastFailedNewSiteContent emptyApp of
                Some c \<Rightarrow> c | None \<Rightarrow> newSiteTemplate (config emptyApp))"
    by (simp add: emptyApp_def)
  have rc: "fst (readFileSync (configPath exampleRuntime)
            (disk (emptyApp\<lparr>disk := emptyWorld\<lparr>files := [configPath exampleRuntime \<mapsto> File ''nginxPath: /etc/nginx'']\<rparr>\<rparr>)))
       = Inr ''nginxPath: /etc/nginx''"
    by (simp add: readFileSync_def maxLinks_def eval_nat_numeral)
  have ne: "blogConfig @ nl \<noteq> blogConfig" by (simp add: nl_def)
  from C8_cancellation_tests [where rt = exampleRuntime and edited = "newSiteTemplate defaultConfig"
      and st = emptyApp]
    C8_cancellation_tests [where st = blogApp and i = 0 and content = blogConfig
      and edited = blogConfig]
    C8_cancellation_tests [where st = blogApp and i = 0 and content = blogConfig
      and edited = "blogConfig @ nl"]
    C8_cancellation_tests [where rt = exampleRuntime
      and st = "emptyApp\<lparr>disk := emptyWorld\<lparr>files := [configPath exampleRuntime \<mapsto> File ''nginxPath: /etc/nginx'']\<rparr>\<rparr>"
      and initialContent = "''nginxPath: /etc/nginx''" and edited = "''nginxPath: /etc/nginx''"]
    len rd tr rc ne
  show ?thesis by simp
qed

text \<open>
  Claim C8 as the specification states it fails for the handler of "New Site", whose
  comparison is not exact: a text that differs from the template by a line feed at its
  end counts as unchanged.
\<close>

theorem C8_new_site_compares_trimmed:
  "newSiteTemplate defaultConfig @ nl \<noteq> newSiteTemplate defaultConfig \<and>
   fst (newSiteButton_press exampleRuntime (newSiteTemplate defaultConfig @ nl) emptyApp) = Unchanged"
proof -
  have "trim (newSiteTemplate defaultConfig @ nl) = trim (newSiteTemplate defaultConfig)"
    by code_simp
  then show ?thesis
    by (simp add: newSiteButton_press_def emptyApp_def Let_def nl_def)
qed

section \<open>Reading the ports\<close>




lemma backoff_starts:
  "t \<in> set (backoff P s) \<Longrightarrow> t = dropWhile P s \<or> (\<exists>x xs. t = x # xs \<and> P x)"
  by (induction s) (auto split: if_splits)


declare matchAll.simps [simp del]

lemma inClass_Space [simp]: "inClass Space = isSpace"
  by (rule ext) simp

lemma inClass_Digit [simp]: "inClass Digit = isDigit"
  by (rule ext) simp






























section \<open>Reading back a generated file\<close>

declare digits.simps [simp del]
declare replaceFrom.simps [simp del]
declare search.simps [simp del]

subsection \<open>Numbers and their digits\<close>







subsection \<open>Whitespace becomes underscores\<close>




subsection \<open>The patterns of the directives\<close>



lemma inClass_Dot [simp]: "inClass Dot = (\<lambda>c. \<not> isLineTerminator c)"
  by (rule ext) simp








subsection \<open>Searching\<close>


































end
